theory Spec2Isabelle
  imports Main
begin

section \<open>Python strings and the character classes of the runtime\<close>

text \<open>
  A Python \<open>str\<close> is a sequence of Unicode code points, so it is a list of naturals here
  (not a list of bytes); \<open>bytes\<close> is a list of octets. The literals of the source are
  ASCII and are written through \<open>ascii\<close>.
\<close>

type_synonym codepoint = nat
type_synonym pystr = "codepoint list"
type_synonym bytes = "nat list"

definition ascii :: "string \<Rightarrow> pystr" where
  "ascii s = map of_char s"

definition in_ranges :: "(nat \<times> nat) list \<Rightarrow> nat \<Rightarrow> bool" where
  "in_ranges rs c = list_ex (\<lambda>(lo, hi). lo \<le> c \<and> c \<le> hi) rs"

text \<open>
  The regular expression classes \<open>\d\<close> and \<open>\D\<close> of a \<open>str\<close> pattern are the Unicode
  decimal digits and their complement. The table is the one of Unicode 14.0.0 (CPython
  3.11): the ASCII digits and the decimal digits of the other scripts.
\<close>

definition decimal_ranges :: "(nat \<times> nat) list" where
  "decimal_ranges =
    [(48, 57), (1632, 1641), (1776, 1785), (1984, 1993), (2406, 2415), (2534, 2543),
     (2662, 2671), (2790, 2799), (2918, 2927), (3046, 3055), (3174, 3183), (3302, 3311),
     (3430, 3439), (3558, 3567), (3664, 3673), (3792, 3801), (3872, 3881), (4160, 4169),
     (4240, 4249), (6112, 6121), (6160, 6169), (6470, 6479), (6608, 6617), (6784, 6793),
     (6800, 6809), (6992, 7001), (7088, 7097), (7232, 7241), (7248, 7257), (42528, 42537),
     (43216, 43225), (43264, 43273), (43472, 43481), (43504, 43513), (43600, 43609),
     (44016, 44025), (65296, 65305), (66720, 66729), (68912, 68921), (69734, 69743),
     (69872, 69881), (69942, 69951), (70096, 70105), (70384, 70393), (70736, 70745),
     (70864, 70873), (71248, 71257), (71360, 71369), (71472, 71481), (71904, 71913),
     (72016, 72025), (72784, 72793), (73040, 73049), (73120, 73129), (92768, 92777),
     (92864, 92873), (93008, 93017), (120782, 120831), (123200, 123209), (123632, 123641),
     (125264, 125273), (130032, 130041)]"

definition isdecimal :: "codepoint \<Rightarrow> bool" where
  "isdecimal c = in_ranges decimal_ranges c"

text \<open>The whitespace that \<open>str.strip()\<close> removes.\<close>

definition whitespace_ranges :: "(nat \<times> nat) list" where
  "whitespace_ranges =
    [(9, 13), (28, 32), (133, 133), (160, 160), (5760, 5760), (8192, 8202), (8232, 8233),
     (8239, 8239), (8287, 8287), (12288, 12288)]"

definition isspace :: "codepoint \<Rightarrow> bool" where
  "isspace c = in_ranges whitespace_ranges c"

text \<open>\<open>re.sub(r"\D", "", s)\<close>: every character that \<open>\D\<close> matches is replaced by nothing.\<close>

definition re_sub_nondigits :: "pystr \<Rightarrow> pystr" where
  "re_sub_nondigits s = filter isdecimal s"

definition py_strip :: "pystr \<Rightarrow> pystr" where
  "py_strip s = rev (dropWhile isspace (rev (dropWhile isspace s)))"

text \<open>
  \<open>str.upper()\<close> maps every character through the full upper-case mapping of the Unicode
  database (one character may become several). The mapping is a table of the runtime and
  is a parameter here.
\<close>

definition py_upper :: "(codepoint \<Rightarrow> pystr) \<Rightarrow> pystr \<Rightarrow> pystr" where
  "py_upper tu s = concat (map tu s)"

text \<open>\<open>str.encode("utf-8")\<close>: a surrogate code point cannot be encoded.\<close>

definition utf8_encode_char :: "codepoint \<Rightarrow> bytes option" where
  "utf8_encode_char c =
     (if c < 128 then Some [c]
      else if c < 2048 then Some [192 + c div 64, 128 + c mod 64]
      else if c < 65536 then
        (if 55296 \<le> c \<and> c \<le> 57343 then None
         else Some [224 + c div 4096, 128 + (c div 64) mod 64, 128 + c mod 64])
      else if c < 1114112 then
        Some [240 + c div 262144, 128 + (c div 4096) mod 64, 128 + (c div 64) mod 64,
              128 + c mod 64]
      else None)"

fun utf8_encode :: "pystr \<Rightarrow> bytes option" where
  "utf8_encode [] = Some []"
| "utf8_encode (c # cs) =
     (case utf8_encode_char c of
        None \<Rightarrow> None
      | Some b \<Rightarrow> (case utf8_encode cs of None \<Rightarrow> None | Some bs \<Rightarrow> Some (b @ bs)))"

section \<open>Configuration\<close>

definition SERVICE_URL :: pystr where
  "SERVICE_URL = ascii ''https://adisrws.mfcr.cz/dpr/axis2/services/rozhraniCRPDPH.''
                 @ ascii ''rozhraniCRPDPHSOAP''"

definition SOAP_ACTION :: pystr where
  "SOAP_ACTION = ascii ''getStatusNespolehlivyPlatce''"

definition NS_soap :: pystr where
  "NS_soap = ascii ''http://schemas.xmlsoap.org/soap/envelope/''"

definition NS_crp :: pystr where
  "NS_crp = ascii ''http://adis.mfcr.cz/rozhraniCRPDPH/''"

section \<open>The request\<close>

definition build_soap_envelope :: "pystr \<Rightarrow> pystr" where
  \<open>build_soap_envelope vat_number =
     ascii ''<?xml version="1.0" encoding="UTF-8"?>\<newline><soapenv:Envelope xmlns:soapenv="''
     @ NS_soap
     @ ascii ''">\<newline>  <soapenv:Body>\<newline>    <StatusNespolehlivyPlatceRequest xmlns="''
     @ NS_crp
     @ ascii ''">\<newline>      <dic>''
     @ vat_number
     @ ascii ''</dic>\<newline>    </StatusNespolehlivyPlatceRequest>\<newline>  </soapenv:Body>\<newline></soapenv:Envelope>''\<close>

section \<open>The service call\<close>

text \<open>
  An element of \<open>xml.etree.ElementTree\<close>: its tag (a qualified name is written
  \<open>{uri}local\<close>), its attributes and its children, in document order. Text and tail are
  never read by the program.
\<close>

datatype element = Element (tag: pystr) (attrib: "(pystr \<times> pystr) list") (children: "element list")

datatype exception =
    UnicodeEncodeError
  | RequestException pystr
  | HTTPError nat
  | XMLParseError pystr
  | LookupError pystr
  | ValueError pystr

record http_request =
  url :: pystr
  data :: bytes
  headers :: "(pystr \<times> pystr) list"
  timeout :: nat

record http_response =
  status_code :: nat
  content :: bytes

text \<open>
  What is outside the program: the network (\<open>requests.post\<close> raises or returns a response),
  the XML parser (\<open>ET.fromstring\<close> returns the root or raises; besides \<open>ParseError\<close> it
  raises \<open>LookupError\<close> and \<open>ValueError\<close> on a body whose declared encoding it cannot use)
  and the upper-case table.
\<close>

record environment =
  post :: "http_request \<Rightarrow> exception + http_response"
  fromstring :: "bytes \<Rightarrow> exception + element"
  toupper_full :: "codepoint \<Rightarrow> pystr"

datatype diagnostic =
    Error_contacting_service exception
  | Error_parsing_XML_response exception

record world =
  posted :: "http_request list"
  stderr :: "diagnostic list"

text \<open>\<open>Response.raise_for_status()\<close> raises for the client and server error statuses.\<close>

definition raise_for_status :: "http_response \<Rightarrow> exception + http_response" where
  "raise_for_status resp =
     (if 400 \<le> status_code resp \<and> status_code resp < 600 then Inl (HTTPError (status_code resp))
      else Inr resp)"

text \<open>
  The first \<open>try\<close> block: the payload is encoded, posted, and the status is checked; every
  exception raised there is caught by \<open>except Exception\<close>.
\<close>

definition post_request :: "environment \<Rightarrow> pystr \<Rightarrow> world \<Rightarrow> (exception + http_response) \<times> world" where
  "post_request env payload w =
     (let hdrs = [(ascii ''Content-Type'', ascii ''text/xml; charset=utf-8''),
                  (ascii ''SOAPAction'', SOAP_ACTION)]
      in case utf8_encode payload of
           None \<Rightarrow> (Inl UnicodeEncodeError, w)
         | Some d \<Rightarrow>
             (let req = \<lparr>url = SERVICE_URL, data = d, headers = hdrs, timeout = 30\<rparr>;
                  w1 = w\<lparr>posted := posted w @ [req]\<rparr>
              in case post env req of
                   Inl exc \<Rightarrow> (Inl exc, w1)
                 | Inr resp \<Rightarrow> (raise_for_status resp, w1)))"

text \<open>
  \<open>_call_service\<close>: \<open>Inr None\<close> is the return value \<open>None\<close>, \<open>Inr (Some root)\<close> the parsed
  root, \<open>Inl exc\<close> an exception that leaves the function. The second \<open>try\<close> block catches
  \<open>ET.ParseError\<close> only.
\<close>

definition call_service :: "environment \<Rightarrow> pystr \<Rightarrow> world \<Rightarrow> (exception + element option) \<times> world" where
  "call_service env vat_number w =
     (let payload = build_soap_envelope vat_number
      in case post_request env payload w of
           (Inl exc, w1) \<Rightarrow>
             (Inr None, w1\<lparr>stderr := stderr w1 @ [Error_contacting_service exc]\<rparr>)
         | (Inr resp, w1) \<Rightarrow>
             (case fromstring env (content resp) of
                Inr root \<Rightarrow> (Inr (Some root), w1)
              | Inl (XMLParseError m) \<Rightarrow>
                  (Inr None, w1\<lparr>stderr := stderr w1 @ [Error_parsing_XML_response (XMLParseError m)]\<rparr>)
              | Inl exc \<Rightarrow> (Inl exc, w1)))"

section \<open>The interpretation of the response\<close>

fun interpret_status :: "pystr \<Rightarrow> pystr \<times> pystr" where
  "interpret_status status =
     (if status = ascii ''ANO'' then (ascii ''Unreliable'', ascii ''false'')
      else if status = ascii ''NE'' then (ascii ''Reliable'', ascii ''true'')
      else (ascii ''Not found'', ascii ''NA''))"

text \<open>\<open>Element.iter()\<close>: the element and all its descendants, in document order.\<close>

fun iter :: "element \<Rightarrow> element list" where
  "iter (Element t a cs) = Element t a cs # concat (map iter cs)"

definition attrib_get :: "element \<Rightarrow> pystr \<Rightarrow> pystr option" where
  "attrib_get e k = map_of (attrib e) k"

text \<open>
  \<open>root.find(".//crp:statusPlatceDPH[@dic='<vat_number>']", NS)\<close>: the prefix is resolved
  through \<open>NS\<close>; \<open>.//\<close> walks the descendants of the root (the root itself is left out) in
  document order; the predicate keeps the elements whose attribute \<open>dic\<close> equals the
  number; \<open>find\<close> returns the first one, or \<open>None\<close>.
\<close>

definition status_tag :: pystr where
  "status_tag = ascii ''{'' @ NS_crp @ ascii ''}statusPlatceDPH''"

definition matches_status :: "pystr \<Rightarrow> element \<Rightarrow> bool" where
  "matches_status vat_number e \<longleftrightarrow>
     tag e = status_tag \<and> attrib_get e (ascii ''dic'') = Some vat_number"

definition find_status :: "element \<Rightarrow> pystr \<Rightarrow> element option" where
  "find_status root vat_number =
     List.find (matches_status vat_number) (concat (map iter (children root)))"

section \<open>The check\<close>

record check_result =
  status :: pystr
  reliable_vat_payer :: pystr
  message :: pystr
  auto_checked :: bool
  vat_number_clean :: pystr

definition initial_result :: check_result where
  "initial_result =
     \<lparr>status = ascii ''error'', reliable_vat_payer = ascii ''true'', message = [],
      auto_checked = True, vat_number_clean = []\<rparr>"

definition check_vat_reliability ::
  "environment \<Rightarrow> pystr \<Rightarrow> world \<Rightarrow> (exception + check_result) \<times> world" where
  "check_vat_reliability env vat_input w =
     (let vat_number = re_sub_nondigits vat_input;
          result = initial_result\<lparr>vat_number_clean := vat_number\<rparr>
      in if vat_number = [] then
           (Inr (result\<lparr>message := ascii ''Invalid VAT number - no digits found'',
                        auto_checked := False\<rparr>), w)
         else
           (case call_service env vat_number w of
              (Inl exc, w1) \<Rightarrow> (Inl exc, w1)
            | (Inr None, w1) \<Rightarrow>
                (Inr (result\<lparr>message := ascii ''Error: could not get response from VAT service'',
                             auto_checked := False\<rparr>), w1)
            | (Inr (Some root), w1) \<Rightarrow>
                (case find_status root vat_number of
                   None \<Rightarrow>
                     (Inr (result\<lparr>status := ascii ''not_found'',
                                  reliable_vat_payer := ascii ''NA'',
                                  message := ascii ''VAT payer not found in registry''\<rparr>), w1)
                 | Some el \<Rightarrow>
                     (let nsp = py_upper (toupper_full env)
                                  (py_strip (case attrib_get el (ascii ''nespolehlivyPlatce'') of
                                               None \<Rightarrow> [] | Some v \<Rightarrow> v));
                          (status_text, reliable_value) = interpret_status nsp
                      in (Inr (result\<lparr>status := ascii ''success'',
                                      reliable_vat_payer := reliable_value,
                                      message := ascii ''VAT Tax payer status: '' @ status_text\<rparr>),
                          w1)))))"

text \<open>The value of \<open>nsp\<close> (line 109 of the source) for a found element.\<close>

definition normalized_attribute :: "environment \<Rightarrow> element \<Rightarrow> pystr" where
  "normalized_attribute env el =
     py_upper (toupper_full env)
       (py_strip (case attrib_get el (ascii ''nespolehlivyPlatce'') of None \<Rightarrow> [] | Some v \<Rightarrow> v))"

section \<open>Environments and responses used to run the program\<close>

text \<open>
  Concrete environments, worlds and responses for the runs of the program below. The
  upper-case table is the one of the runtime on the ASCII characters.
\<close>

definition ascii_toupper :: "codepoint \<Rightarrow> pystr" where
  "ascii_toupper c = [if 97 \<le> c \<and> c \<le> 122 then c - 32 else c]"

definition w0 :: world where
  "w0 = \<lparr>posted = [], stderr = []\<rparr>"

text \<open>A network that refuses the connection.\<close>

definition env_down :: environment where
  "env_down =
     \<lparr>post = (\<lambda>req. Inl (RequestException (ascii ''connection refused''))),
      fromstring = (\<lambda>b. Inl (XMLParseError (ascii ''no element found''))),
      toupper_full = ascii_toupper\<rparr>"

text \<open>A service that answers with the given status and a body that the parser reads as \<open>doc\<close>.\<close>

definition env_reply :: "nat \<Rightarrow> exception + element \<Rightarrow> environment" where
  "env_reply code doc =
     \<lparr>post = (\<lambda>req. Inr \<lparr>status_code = code, content = []\<rparr>),
      fromstring = (\<lambda>b. doc),
      toupper_full = ascii_toupper\<rparr>"

text \<open>The response of the registry: a SOAP envelope around the status elements.\<close>

definition status_element :: "pystr \<Rightarrow> pystr \<Rightarrow> element" where
  "status_element d v =
     Element status_tag [(ascii ''dic'', d), (ascii ''nespolehlivyPlatce'', v)] []"

definition soap_response :: "element list \<Rightarrow> element" where
  "soap_response es =
     Element (ascii ''{'' @ NS_soap @ ascii ''}Envelope'') []
       [Element (ascii ''{'' @ NS_soap @ ascii ''}Body'') []
          [Element (ascii ''{'' @ NS_crp @ ascii ''}StatusNespolehlivyPlatceResponse'') [] es]]"

text \<open>What \<open>_call_service\<close> makes of the result of the parser (its second \<open>try\<close> block).\<close>

definition parser_outcome :: "exception + element \<Rightarrow> exception + element option" where
  "parser_outcome doc =
     (case doc of Inr root \<Rightarrow> Inr (Some root)
      | Inl (XMLParseError m) \<Rightarrow> Inr None
      | Inl exc \<Rightarrow> Inl exc)"

text \<open>The scenario of the specification: the number 25083062 and a registry that knows it.\<close>

definition registry_env :: "pystr \<Rightarrow> environment" where
  "registry_env v = env_reply 200 (Inr (soap_response [status_element (ascii ''25083062'') v]))"

definition empty_registry_env :: environment where
  "empty_registry_env = env_reply 200 (Inr (soap_response []))"

text \<open>
  The input normalizer in the words of the specification (section 4.1): every character
  that is not one of the decimal digits 0 to 9 is removed, the others keep their order.
\<close>

definition spec_input_normalizer :: "pystr \<Rightarrow> pystr" where
  "spec_input_normalizer s = filter (\<lambda>c. 48 \<le> c \<and> c \<le> 57) s"

text \<open>A service whose reply declares an encoding that the parser does not know.\<close>

definition unknown_encoding_env :: environment where
  "unknown_encoding_env = env_reply 200 (Inl (LookupError (ascii ''unknown encoding: bogus'')))"

text \<open>
  The request that \<open>_call_service\<close> posts (lines 32 to 43 of the source) for the encoded
  payload.
\<close>

definition service_request :: "bytes \<Rightarrow> http_request" where
  "service_request payload =
     \<lparr>url = SERVICE_URL, data = payload,
      headers = [(ascii ''Content-Type'', ascii ''text/xml; charset=utf-8''),
                 (ascii ''SOAPAction'', SOAP_ACTION)],
      timeout = 30\<rparr>"

text \<open>A reply whose body is not well-formed XML.\<close>

definition malformed_reply_env :: environment where
  "malformed_reply_env = env_reply 200 (Inl (XMLParseError (ascii ''no element found'')))"

section \<open>Well-formed XML documents\<close>

text \<open>
  The request document in the words of the specification (section 4.2): a well-formed XML
  document. A document is a tree of elements and character data; its text is the XML
  declaration, a line break and the rendering of the root element in the concrete syntax
  of XML 1.0 (start tag with the attributes in double quotes, content, end tag).
\<close>

datatype xml_node = Tag pystr "(pystr \<times> pystr) list" "xml_node list" | CharData pystr

definition render_attribute :: "pystr \<times> pystr \<Rightarrow> pystr" where
  \<open>render_attribute kv = ascii '' '' @ fst kv @ ascii ''="'' @ snd kv @ ascii ''"''\<close>

fun render :: "xml_node \<Rightarrow> pystr" where
  "render (CharData s) = s"
| "render (Tag n atts body) =
     ascii ''<'' @ n @ concat (map render_attribute atts) @ ascii ''>''
     @ concat (map render body)
     @ ascii ''</'' @ n @ ascii ''>''"

definition render_document :: "pystr \<Rightarrow> pystr \<Rightarrow> xml_node \<Rightarrow> pystr" where
  \<open>render_document version encoding root =
     ascii ''<?xml version="'' @ version @ ascii ''" encoding="'' @ encoding @ ascii ''"?>''
     @ ascii ''\<newline>'' @ render root\<close>

text \<open>
  The constraints of XML 1.0 on the tree: legal characters; names (the ASCII part of the
  name characters); no \<open><\<close>, \<open>&\<close> or \<open>>\<close> in character data; no \<open><\<close>, \<open>&\<close> or double quote in
  an attribute value; no attribute twice in a tag.
\<close>

definition xml_char :: "codepoint \<Rightarrow> bool" where
  "xml_char c \<longleftrightarrow>
     c = 9 \<or> c = 10 \<or> c = 13 \<or> (32 \<le> c \<and> c \<le> 55295) \<or> (57344 \<le> c \<and> c \<le> 65533)
     \<or> (65536 \<le> c \<and> c \<le> 1114111)"

definition name_start_char :: "codepoint \<Rightarrow> bool" where
  "name_start_char c \<longleftrightarrow> c = 58 \<or> c = 95 \<or> (65 \<le> c \<and> c \<le> 90) \<or> (97 \<le> c \<and> c \<le> 122)"

definition name_char :: "codepoint \<Rightarrow> bool" where
  "name_char c \<longleftrightarrow> name_start_char c \<or> c = 45 \<or> c = 46 \<or> (48 \<le> c \<and> c \<le> 57)"

definition xml_name :: "pystr \<Rightarrow> bool" where
  "xml_name n \<longleftrightarrow> (case n of [] \<Rightarrow> False | c # cs \<Rightarrow> name_start_char c \<and> list_all name_char cs)"

definition char_data :: "pystr \<Rightarrow> bool" where
  "char_data s \<longleftrightarrow> list_all (\<lambda>c. xml_char c \<and> c \<noteq> 60 \<and> c \<noteq> 38 \<and> c \<noteq> 62) s"

definition att_value :: "pystr \<Rightarrow> bool" where
  "att_value s \<longleftrightarrow> list_all (\<lambda>c. xml_char c \<and> c \<noteq> 60 \<and> c \<noteq> 38 \<and> c \<noteq> 34) s"

fun wellformed :: "xml_node \<Rightarrow> bool" where
  "wellformed (CharData s) = char_data s"
| "wellformed (Tag n atts body) \<longleftrightarrow>
     xml_name n \<and> distinct (map fst atts)
     \<and> list_all (\<lambda>kv. xml_name (fst kv) \<and> att_value (snd kv)) atts
     \<and> list_all wellformed body"

text \<open>
  Namespaces: the declarations of a tag (\<open>xmlns\<close> for the default namespace, the empty
  prefix here, and \<open>xmlns:p\<close> for the prefix \<open>p\<close>) are in scope in the element; the name of
  an element is expanded to \<open>{uri}local\<close>, as \<open>ElementTree\<close> writes it; a prefix that is
  not declared is an error. \<open>to_element\<close> is the tree of elements of a document: the
  expanded names, the attributes other than declarations, the child elements.
\<close>

definition namespace_declarations :: "(pystr \<times> pystr) list \<Rightarrow> (pystr \<times> pystr) list" where
  "namespace_declarations atts =
     concat (map (\<lambda>kv. if fst kv = ascii ''xmlns'' then [([], snd kv)]
                         else if take 6 (fst kv) = ascii ''xmlns:'' then [(drop 6 (fst kv), snd kv)]
                         else []) atts)"

definition plain_attributes :: "(pystr \<times> pystr) list \<Rightarrow> (pystr \<times> pystr) list" where
  "plain_attributes atts =
     filter (\<lambda>kv. fst kv \<noteq> ascii ''xmlns'' \<and> take 6 (fst kv) \<noteq> ascii ''xmlns:'') atts"

definition expand_name :: "(pystr \<times> pystr) list \<Rightarrow> pystr \<Rightarrow> pystr option" where
  "expand_name scope n =
     (if 58 \<in> set n then
        (case map_of scope (takeWhile (\<lambda>c. c \<noteq> 58) n) of
           None \<Rightarrow> None
         | Some uri \<Rightarrow> Some (ascii ''{'' @ uri @ ascii ''}'' @ tl (dropWhile (\<lambda>c. c \<noteq> 58) n)))
      else
        (case map_of scope [] of
           None \<Rightarrow> Some n
         | Some uri \<Rightarrow> Some (ascii ''{'' @ uri @ ascii ''}'' @ n)))"

fun is_tag :: "xml_node \<Rightarrow> bool" where
  "is_tag (Tag n atts body) = True"
| "is_tag (CharData s) = False"

fun to_element :: "(pystr \<times> pystr) list \<Rightarrow> xml_node \<Rightarrow> element option" where
  "to_element scope (CharData s) = None"
| "to_element scope (Tag n atts body) =
     (let inner = namespace_declarations atts @ scope
      in case expand_name inner n of
           None \<Rightarrow> None
         | Some t \<Rightarrow>
             (case those (map (to_element inner) (filter is_tag body)) of
                None \<Rightarrow> None
              | Some es \<Rightarrow> Some (Element t (plain_attributes atts) es)))"

section \<open>Basic facts\<close>

lemma literals_distinct:
  "ascii ''error'' \<noteq> ascii ''success''" "ascii ''error'' \<noteq> ascii ''not_found''"
  "ascii ''success'' \<noteq> ascii ''not_found''" "ascii ''success'' \<noteq> ascii ''error''"
  "ascii ''not_found'' \<noteq> ascii ''error''" "ascii ''not_found'' \<noteq> ascii ''success''"
  "ascii ''true'' \<noteq> ascii ''false''" "ascii ''true'' \<noteq> ascii ''NA''"
  "ascii ''false'' \<noteq> ascii ''NA''" "ascii ''false'' \<noteq> ascii ''true''"
  "ascii ''NA'' \<noteq> ascii ''true''" "ascii ''NA'' \<noteq> ascii ''false''"
  "ascii ''ANO'' \<noteq> ascii ''NE''" "ascii ''NE'' \<noteq> ascii ''ANO''"
  by (simp_all add: ascii_def)

subsection \<open>The paths of the check\<close>

lemma check_no_digits:
  "re_sub_nondigits x = [] \<Longrightarrow>
   check_vat_reliability env x w =
     (Inr (initial_result\<lparr>vat_number_clean := [],
            message := ascii ''Invalid VAT number - no digits found'',
            auto_checked := False\<rparr>), w)"
  by (simp add: check_vat_reliability_def)

lemma check_service_none:
  "re_sub_nondigits x \<noteq> [] \<Longrightarrow> call_service env (re_sub_nondigits x) w = (Inr None, w1) \<Longrightarrow>
   check_vat_reliability env x w =
     (Inr (initial_result\<lparr>vat_number_clean := re_sub_nondigits x,
            message := ascii ''Error: could not get response from VAT service'',
            auto_checked := False\<rparr>), w1)"
  by (simp add: check_vat_reliability_def)

lemma check_service_raises:
  "re_sub_nondigits x \<noteq> [] \<Longrightarrow> call_service env (re_sub_nondigits x) w = (Inl exc, w1) \<Longrightarrow>
   check_vat_reliability env x w = (Inl exc, w1)"
  by (simp add: check_vat_reliability_def)

lemma check_not_found:
  "re_sub_nondigits x \<noteq> [] \<Longrightarrow> call_service env (re_sub_nondigits x) w = (Inr (Some root), w1) \<Longrightarrow>
   find_status root (re_sub_nondigits x) = None \<Longrightarrow>
   check_vat_reliability env x w =
     (Inr (initial_result\<lparr>vat_number_clean := re_sub_nondigits x,
            status := ascii ''not_found'', reliable_vat_payer := ascii ''NA'',
            message := ascii ''VAT payer not found in registry''\<rparr>), w1)"
  by (simp add: check_vat_reliability_def)

lemma check_found:
  "re_sub_nondigits x \<noteq> [] \<Longrightarrow> call_service env (re_sub_nondigits x) w = (Inr (Some root), w1) \<Longrightarrow>
   find_status root (re_sub_nondigits x) = Some el \<Longrightarrow>
   check_vat_reliability env x w =
     (Inr (initial_result\<lparr>vat_number_clean := re_sub_nondigits x,
            status := ascii ''success'',
            reliable_vat_payer := snd (interpret_status (normalized_attribute env el)),
            message := ascii ''VAT Tax payer status: ''
                       @ fst (interpret_status (normalized_attribute env el))\<rparr>), w1)"
  by (simp add: check_vat_reliability_def normalized_attribute_def Let_def split: prod.splits)

lemma call_service_cases:
  obtains (none) w1 where "call_service env d w = (Inr None, w1)"
  | (root) root w1 where "call_service env d w = (Inr (Some root), w1)"
  | (raises) exc w1 where "call_service env d w = (Inl exc, w1)"
  by (cases "call_service env d w"; case_tac a; case_tac b) auto

subsection \<open>Digits and the encoding of the request\<close>

lemma utf8_encode_None_iff:
  "utf8_encode s = None \<longleftrightarrow> (\<exists>c\<in>set s. utf8_encode_char c = None)"
  by (induction s) (auto split: option.splits)

lemma in_ranges_iff:
  "in_ranges rs c \<longleftrightarrow> (\<exists>(lo, hi)\<in>set rs. lo \<le> c \<and> c \<le> hi)"
  by (simp add: in_ranges_def list_ex_iff)

lemma in_ranges_Cons:
  "in_ranges ((lo, hi) # rs) c \<longleftrightarrow> lo \<le> c \<and> c \<le> hi \<or> in_ranges rs c"
  by (simp add: in_ranges_def)

lemma in_ranges_property:
  assumes "in_ranges rs c" and "list_all (\<lambda>(lo, hi). \<forall>x. lo \<le> x \<and> x \<le> hi \<longrightarrow> P x) rs"
  shows "P c"
  using assms by (auto simp: in_ranges_iff list_all_iff)

lemma decimal_ranges_encodable:
  "list_all (\<lambda>(lo, hi). \<forall>x. lo \<le> x \<and> x \<le> hi \<longrightarrow> x < 1114112 \<and> (x < 55296 \<or> 57343 < x))
     decimal_ranges"
  by (simp add: decimal_ranges_def)

lemma isdecimal_encodable: "isdecimal c \<Longrightarrow> utf8_encode_char c \<noteq> None"
proof -
  assume "isdecimal c"
  then have "c < 1114112 \<and> (c < 55296 \<or> 57343 < c)"
    unfolding isdecimal_def by (rule in_ranges_property) (rule decimal_ranges_encodable)
  then show ?thesis by (auto simp: utf8_encode_char_def)
qed

lemma decimal_ranges_tail:
  "list_all (\<lambda>(lo, hi). \<forall>x. lo \<le> x \<and> x \<le> hi \<longrightarrow> 128 \<le> x) (tl decimal_ranges)"
  by (simp add: decimal_ranges_def)

lemma isdecimal_ascii: "c < 128 \<Longrightarrow> isdecimal c \<longleftrightarrow> 48 \<le> c \<and> c \<le> 57"
proof -
  assume c: "c < 128"
  have "\<not> in_ranges (tl decimal_ranges) c"
    using in_ranges_property [OF _ decimal_ranges_tail, of c] c by auto
  moreover have "(48, 57) # tl decimal_ranges = decimal_ranges"
    by (simp add: decimal_ranges_def)
  ultimately show ?thesis
    unfolding isdecimal_def using in_ranges_Cons [of 48 57 "tl decimal_ranges" c] by metis
qed

lemma ascii_encodable: "c \<in> set (ascii s) \<Longrightarrow> utf8_encode_char c \<noteq> None"
proof -
  assume "c \<in> set (ascii s)"
  then obtain x where "c = of_char x" by (auto simp: ascii_def)
  then have "c < 256" by (simp add: nat_of_char_less_256)
  then show ?thesis by (simp add: utf8_encode_char_def)
qed

lemma envelope_encodable:
  assumes "list_all isdecimal d"
  shows "utf8_encode (build_soap_envelope d) \<noteq> None"
  using assms
  by (auto simp: utf8_encode_None_iff build_soap_envelope_def NS_soap_def NS_crp_def list_all_iff
           dest: ascii_encodable isdecimal_encodable)

lemma re_sub_nondigits_all_decimal: "list_all isdecimal (re_sub_nondigits s)"
  by (simp add: re_sub_nondigits_def list_all_iff)

lemma re_sub_nondigits_idem: "re_sub_nondigits (re_sub_nondigits s) = re_sub_nondigits s"
  by (simp add: re_sub_nondigits_def)

lemma re_sub_nondigits_empty_iff: "re_sub_nondigits s = [] \<longleftrightarrow> (\<forall>c\<in>set s. \<not> isdecimal c)"
  by (simp add: re_sub_nondigits_def filter_empty_conv)

subsection \<open>The outcomes of the service call\<close>

lemma call_service_post_raises:
  assumes "\<And>req. \<exists>exc. post env req = Inl exc"
  shows "fst (call_service env d w) = Inr None"
proof (cases "utf8_encode (build_soap_envelope d)")
  case None
  then show ?thesis by (simp add: call_service_def post_request_def)
next
  case (Some b)
  obtain exc where "post env \<lparr>url = SERVICE_URL, data = b,
      headers = [(ascii ''Content-Type'', ascii ''text/xml; charset=utf-8''), (ascii ''SOAPAction'', SOAP_ACTION)],
      timeout = 30\<rparr> = Inl exc"
    using assms by blast
  with Some show ?thesis by (simp add: call_service_def post_request_def)
qed

lemma call_service_reply:
  assumes "list_all isdecimal d" and "code < 400 \<or> 600 \<le> code"
  shows "fst (call_service (env_reply code doc) d w) = parser_outcome doc"
proof -
  obtain b where "utf8_encode (build_soap_envelope d) = Some b"
    using envelope_encodable [OF assms(1)] by blast
  with assms(2) show ?thesis
    by (auto simp: call_service_def post_request_def env_reply_def raise_for_status_def
          parser_outcome_def split: sum.splits exception.splits)
qed

lemma call_service_http_error:
  assumes "400 \<le> code" and "code < 600"
  shows "fst (call_service (env_reply code doc) d w) = Inr None"
  using assms
  by (auto simp: call_service_def post_request_def env_reply_def raise_for_status_def
        split: option.splits)

subsection \<open>The search for the status element\<close>

lemma descendants_subset: "set (concat (map iter (children root))) \<subseteq> set (iter root)"
  by (cases root) auto

lemma find_status_None:
  "\<forall>e\<in>set (iter root). \<not> matches_status d e \<Longrightarrow> find_status root d = None"
  unfolding find_status_def find_None_iff using descendants_subset by blast

lemma find_status_Some:
  "find_status root d = Some el \<Longrightarrow> el \<in> set (iter root) \<and> matches_status d el"
  unfolding find_status_def using descendants_subset
  by (metis (no_types, lifting) find_Some_iff nth_mem subsetD)

subsection \<open>Runs of the program\<close>

lemma fst_pair: "fst p = a \<Longrightarrow> p = (a, snd p)"
  by (cases p) simp

lemma digits_CZ: "re_sub_nondigits (ascii ''CZ'') = []"
  by (simp add: re_sub_nondigits_def isdecimal_def in_ranges_def decimal_ranges_def ascii_def)

lemma digits_CZ25083062: "re_sub_nondigits (ascii ''CZ25083062'') = ascii ''25083062''"
  by (simp add: re_sub_nondigits_def isdecimal_def in_ranges_def decimal_ranges_def ascii_def)

lemma digits_spaced: "re_sub_nondigits (ascii ''250 830 62'') = ascii ''25083062''"
  by (simp add: re_sub_nondigits_def isdecimal_def in_ranges_def decimal_ranges_def ascii_def)

lemma sample_nonempty: "ascii ''25083062'' \<noteq> []"
  by (simp add: ascii_def)

lemma sample_decimal: "list_all isdecimal (ascii ''25083062'')"
  using re_sub_nondigits_all_decimal [of "ascii ''CZ25083062''"] by (simp add: digits_CZ25083062)

lemma tags_distinct:
  "ascii ''{'' @ NS_soap @ ascii ''}Envelope'' \<noteq> status_tag"
  "ascii ''{'' @ NS_soap @ ascii ''}Body'' \<noteq> status_tag"
  "ascii ''{'' @ NS_crp @ ascii ''}StatusNespolehlivyPlatceResponse'' \<noteq> status_tag"
  by (simp_all add: status_tag_def NS_soap_def NS_crp_def ascii_def)

lemma find_status_present:
  "find_status (soap_response [status_element d v]) d = Some (status_element d v)"
  by (simp add: find_status_def soap_response_def status_element_def matches_status_def
        attrib_get_def tags_distinct)

lemma find_status_absent: "find_status (soap_response []) d = None"
  by (simp add: find_status_def soap_response_def matches_status_def tags_distinct)

lemma attribute_names_distinct: "ascii ''nespolehlivyPlatce'' \<noteq> ascii ''dic''"
  by (simp add: ascii_def)

lemma normalized_attribute_status_element:
  "normalized_attribute (env_reply code doc) (status_element d v) = py_upper ascii_toupper (py_strip v)"
  by (simp add: normalized_attribute_def env_reply_def status_element_def attrib_get_def
        attribute_names_distinct)

lemma run_registry:
  "check_vat_reliability (registry_env v) (ascii ''CZ25083062'') w0 =
     (Inr (initial_result\<lparr>vat_number_clean := ascii ''25083062'',
            status := ascii ''success'',
            reliable_vat_payer := snd (interpret_status (py_upper ascii_toupper (py_strip v))),
            message := ascii ''VAT Tax payer status: ''
                       @ fst (interpret_status (py_upper ascii_toupper (py_strip v)))\<rparr>),
      snd (call_service (registry_env v) (ascii ''25083062'') w0))"
proof -
  have "fst (call_service (registry_env v) (ascii ''25083062'') w0) =
          Inr (Some (soap_response [status_element (ascii ''25083062'') v]))"
    unfolding registry_env_def by (simp add: call_service_reply sample_decimal parser_outcome_def)
  from check_found [of "ascii ''CZ25083062''", unfolded digits_CZ25083062,
      OF sample_nonempty fst_pair [OF this] find_status_present]
  show ?thesis by (simp add: registry_env_def normalized_attribute_status_element)
qed

lemma normalize_samples:
  "py_upper ascii_toupper (py_strip (ascii '' ne '')) = ascii ''NE''"
  "py_upper ascii_toupper (py_strip (ascii ''Ano'')) = ascii ''ANO''"
  "py_upper ascii_toupper (py_strip (ascii ''NENALEZEN'')) = ascii ''NENALEZEN''"
  by (simp_all add: py_upper_def py_strip_def ascii_toupper_def isspace_def in_ranges_def
        whitespace_ranges_def ascii_def)

lemma run_empty_registry:
  "check_vat_reliability empty_registry_env (ascii ''CZ25083062'') w0 =
     (Inr (initial_result\<lparr>vat_number_clean := ascii ''25083062'',
            status := ascii ''not_found'', reliable_vat_payer := ascii ''NA'',
            message := ascii ''VAT payer not found in registry''\<rparr>),
      snd (call_service empty_registry_env (ascii ''25083062'') w0))"
proof -
  have "fst (call_service empty_registry_env (ascii ''25083062'') w0) = Inr (Some (soap_response []))"
    unfolding empty_registry_env_def by (simp add: call_service_reply sample_decimal parser_outcome_def)
  from check_not_found [of "ascii ''CZ25083062''", unfolded digits_CZ25083062,
      OF sample_nonempty fst_pair [OF this] find_status_absent]
  show ?thesis .
qed

lemma run_down:
  "check_vat_reliability env_down (ascii ''CZ25083062'') w0 =
     (Inr (initial_result\<lparr>vat_number_clean := ascii ''25083062'',
            message := ascii ''Error: could not get response from VAT service'',
            auto_checked := False\<rparr>),
      snd (call_service env_down (ascii ''25083062'') w0))"
proof -
  have "fst (call_service env_down (ascii ''25083062'') w0) = Inr None"
    by (rule call_service_post_raises) (simp add: env_down_def)
  from check_service_none [of "ascii ''CZ25083062''", unfolded digits_CZ25083062,
      OF sample_nonempty fst_pair [OF this]]
  show ?thesis .
qed

subsection \<open>The result as a function of the digits, and the exceptions\<close>

lemma check_depends_on_digits:
  "re_sub_nondigits x = re_sub_nondigits y \<Longrightarrow>
   check_vat_reliability env x w = check_vat_reliability env y w"
  by (simp add: check_vat_reliability_def)

lemma call_service_no_raise:
  assumes "\<forall>b exc. fromstring env b = Inl exc \<longrightarrow> (\<exists>m. exc = XMLParseError m)"
  shows "\<exists>r. fst (call_service env d w) = Inr r"
proof (cases "post_request env (build_soap_envelope d) w")
  case (Pair res w1)
  show ?thesis
  proof (cases res)
    case (Inl exc)
    with Pair show ?thesis by (simp add: call_service_def)
  next
    case (Inr resp)
    show ?thesis
    proof (cases "fromstring env (content resp)")
      case (Inl exc)
      with assms obtain m where "exc = XMLParseError m" by blast
      with Pair Inr Inl show ?thesis by (simp add: call_service_def)
    next
      case (Inr root)
      with Pair \<open>res = Inr resp\<close> show ?thesis by (simp add: call_service_def)
    qed
  qed
qed

lemma check_returns_unless_parser_raises:
  assumes "\<forall>b exc. fromstring env b = Inl exc \<longrightarrow> (\<exists>m. exc = XMLParseError m)"
  shows "\<exists>r. fst (check_vat_reliability env vat_input w) = Inr r"
proof (cases "re_sub_nondigits vat_input = []")
  case True
  then show ?thesis by (simp add: check_no_digits)
next
  case False
  obtain res where res: "fst (call_service env (re_sub_nondigits vat_input) w) = Inr res"
    using call_service_no_raise [OF assms] by blast
  show ?thesis
  proof (cases res)
    case None
    with check_service_none [OF False fst_pair [OF res [unfolded None]]] show ?thesis by simp
  next
    case (Some root)
    show ?thesis
    proof (cases "find_status root (re_sub_nondigits vat_input)")
      case None
      with check_not_found [OF False fst_pair [OF res [unfolded Some]]] show ?thesis by simp
    next
      case (Some el)
      with check_found [OF False fst_pair [OF res [unfolded \<open>res = Some root\<close>]]] show ?thesis by simp
    qed
  qed
qed

lemma posted_call_service:
  assumes "list_all isdecimal d"
  shows "length (posted (snd (call_service env d w))) = Suc (length (posted w))"
proof -
  obtain b where "utf8_encode (build_soap_envelope d) = Some b"
    using envelope_encodable [OF assms] by blast
  then show ?thesis
    by (simp add: call_service_def post_request_def Let_def
          split: sum.splits exception.splits prod.splits)
qed

lemma service_called_when_digits:
  assumes "re_sub_nondigits vat_input \<noteq> []"
  shows "length (posted (snd (check_vat_reliability env vat_input w))) = Suc (length (posted w))"
proof -
  have "snd (check_vat_reliability env vat_input w) =
          snd (call_service env (re_sub_nondigits vat_input) w)"
    using assms
    by (simp add: check_vat_reliability_def Let_def split: sum.splits option.splits prod.splits)
  then show ?thesis
    by (simp add: posted_call_service re_sub_nondigits_all_decimal)
qed

section \<open>The claims\<close>

subsection \<open>C1: the invariant of the result record\<close>

text \<open>
  C1, as stated, fails: for the input \<open>CZ\<close> (no digit) the program returns a record whose
  \<open>reliable_vat_payer\<close> is \<open>true\<close> although its \<open>status\<close> is \<open>error\<close>, not \<open>success\<close>.
\<close>

theorem default_survives_error:
  "fst (check_vat_reliability env_down (ascii ''CZ'') w0) =
     Inr \<lparr>status = ascii ''error'', reliable_vat_payer = ascii ''true'',
          message = ascii ''Invalid VAT number - no digits found'',
          auto_checked = False, vat_number_clean = []\<rparr>
   \<and> ascii ''error'' \<noteq> ascii ''success''"
  by (simp add: check_no_digits digits_CZ initial_result_def literals_distinct)

text \<open>
  C1, amended: in every record that \<open>check_vat_reliability\<close> returns, \<open>auto_checked\<close> is
  false only when \<open>status\<close> is \<open>error\<close>, and then the normalized input is empty or the
  service call returned \<open>None\<close>; \<open>reliable_vat_payer\<close> is \<open>NA\<close> whenever \<open>status\<close> is
  \<open>not_found\<close>; \<open>reliable_vat_payer\<close> is \<open>false\<close> only when \<open>status\<close> is \<open>success\<close>, and is
  \<open>true\<close> only when \<open>status\<close> is \<open>success\<close> or \<open>error\<close>.
\<close>

theorem check_result_invariant:
  assumes "fst (check_vat_reliability env vat_input w) = Inr r"
  shows "(\<not> auto_checked r \<longrightarrow>
            status r = ascii ''error'' \<and>
            (re_sub_nondigits vat_input = [] \<or>
             fst (call_service env (re_sub_nondigits vat_input) w) = Inr None))
       \<and> (status r = ascii ''not_found'' \<longrightarrow> reliable_vat_payer r = ascii ''NA'')
       \<and> (reliable_vat_payer r = ascii ''false'' \<longrightarrow> status r = ascii ''success'')
       \<and> (reliable_vat_payer r = ascii ''true'' \<longrightarrow>
            status r = ascii ''success'' \<or> status r = ascii ''error'')"
proof (cases "re_sub_nondigits vat_input = []")
  case True
  with assms show ?thesis
    by (auto simp: check_no_digits initial_result_def literals_distinct)
next
  case False
  show ?thesis
  proof (cases rule: call_service_cases [of env "re_sub_nondigits vat_input" w])
    case (none w1)
    with assms False show ?thesis
      by (auto simp: check_service_none initial_result_def literals_distinct)
  next
    case (raises exc w1)
    with assms False show ?thesis
      by (simp add: check_service_raises)
  next
    case (root root w1)
    show ?thesis
    proof (cases "find_status root (re_sub_nondigits vat_input)")
      case None
      with assms False root show ?thesis
        by (auto simp: check_not_found initial_result_def literals_distinct)
    next
      case (Some el)
      with assms False root show ?thesis
        by (auto simp: check_found initial_result_def literals_distinct)
    qed
  qed
qed

text \<open>
  The invariant at three runs: a failed service call, an empty registry, and a registry
  that answers \<open>Ano\<close>.
\<close>

theorem check_result_invariant_witness:
  "fst (check_vat_reliability env_down (ascii ''CZ25083062'') w0) =
     Inr (initial_result\<lparr>vat_number_clean := ascii ''25083062'',
           message := ascii ''Error: could not get response from VAT service'',
           auto_checked := False\<rparr>)
   \<and> fst (call_service env_down (re_sub_nondigits (ascii ''CZ25083062'')) w0) = Inr None
   \<and> fst (check_vat_reliability empty_registry_env (ascii ''CZ25083062'') w0) =
     Inr (initial_result\<lparr>vat_number_clean := ascii ''25083062'',
           status := ascii ''not_found'', reliable_vat_payer := ascii ''NA'',
           message := ascii ''VAT payer not found in registry''\<rparr>)
   \<and> fst (check_vat_reliability (registry_env (ascii ''Ano'')) (ascii ''CZ25083062'') w0) =
     Inr (initial_result\<lparr>vat_number_clean := ascii ''25083062'',
           status := ascii ''success'', reliable_vat_payer := ascii ''false'',
           message := ascii ''VAT Tax payer status: '' @ ascii ''Unreliable''\<rparr>)"
proof -
  let ?r1 = "initial_result\<lparr>vat_number_clean := ascii ''25083062'',
           message := ascii ''Error: could not get response from VAT service'',
           auto_checked := False\<rparr>"
  let ?r2 = "initial_result\<lparr>vat_number_clean := ascii ''25083062'',
           status := ascii ''not_found'', reliable_vat_payer := ascii ''NA'',
           message := ascii ''VAT payer not found in registry''\<rparr>"
  let ?r3 = "initial_result\<lparr>vat_number_clean := ascii ''25083062'',
           status := ascii ''success'', reliable_vat_payer := ascii ''false'',
           message := ascii ''VAT Tax payer status: '' @ ascii ''Unreliable''\<rparr>"
  have h1: "fst (check_vat_reliability env_down (ascii ''CZ25083062'') w0) = Inr ?r1"
    by (simp add: run_down)
  have h2: "fst (check_vat_reliability empty_registry_env (ascii ''CZ25083062'') w0) = Inr ?r2"
    by (simp add: run_empty_registry)
  have h3: "fst (check_vat_reliability (registry_env (ascii ''Ano'')) (ascii ''CZ25083062'') w0) = Inr ?r3"
    by (simp add: run_registry normalize_samples)
  show ?thesis
    using h1 h2 h3 check_result_invariant [OF h1] check_result_invariant [OF h2]
      check_result_invariant [OF h3]
    by (simp add: digits_CZ25083062 sample_nonempty)
qed

subsection \<open>C2: the interpretation of a present element\<close>

text \<open>
  C2: when \<open>find\<close> returns the matching \<open>statusPlatceDPH\<close> element, the value of its
  attribute \<open>nespolehlivyPlatce\<close> (the empty string when the attribute is absent) is
  stripped and upper-cased, the returned record has \<open>status = success\<close> in all cases, and
  the normalized value decides the rest: \<open>ANO\<close> gives \<open>reliable_vat_payer = false\<close> and the
  label \<open>Unreliable\<close>, \<open>NE\<close> gives \<open>true\<close> and \<open>Reliable\<close>, anything else gives \<open>NA\<close> and
  \<open>Not found\<close>.
\<close>

theorem present_element_interpreted:
  assumes "re_sub_nondigits vat_input \<noteq> []"
    and "fst (call_service env (re_sub_nondigits vat_input) w) = Inr (Some root)"
    and "find_status root (re_sub_nondigits vat_input) = Some el"
    and "nsp = py_upper (toupper_full env)
                 (py_strip (case attrib_get el (ascii ''nespolehlivyPlatce'') of
                              None \<Rightarrow> [] | Some v \<Rightarrow> v))"
  shows "\<exists>r. fst (check_vat_reliability env vat_input w) = Inr r
       \<and> status r = ascii ''success''
       \<and> (nsp = ascii ''ANO'' \<longrightarrow>
            reliable_vat_payer r = ascii ''false''
            \<and> message r = ascii ''VAT Tax payer status: '' @ ascii ''Unreliable'')
       \<and> (nsp = ascii ''NE'' \<longrightarrow>
            reliable_vat_payer r = ascii ''true''
            \<and> message r = ascii ''VAT Tax payer status: '' @ ascii ''Reliable'')
       \<and> (nsp \<noteq> ascii ''ANO'' \<and> nsp \<noteq> ascii ''NE'' \<longrightarrow>
            reliable_vat_payer r = ascii ''NA''
            \<and> message r = ascii ''VAT Tax payer status: '' @ ascii ''Not found'')"
proof -
  have nsp: "nsp = normalized_attribute env el"
    using assms(4) by (simp add: normalized_attribute_def)
  show ?thesis
    unfolding check_found [OF assms(1) fst_pair [OF assms(2)] assms(3)] nsp
    by (simp add: literals_distinct)
qed

text \<open>The three rows of the table, at the attribute values \<open>Ano\<close>, \<open> ne \<close> and \<open>NENALEZEN\<close>.\<close>

theorem present_element_interpreted_witness:
  "(\<exists>r. fst (check_vat_reliability (registry_env (ascii ''Ano'')) (ascii ''CZ25083062'') w0) = Inr r
       \<and> status r = ascii ''success'' \<and> reliable_vat_payer r = ascii ''false''
       \<and> message r = ascii ''VAT Tax payer status: '' @ ascii ''Unreliable'')
   \<and> (\<exists>r. fst (check_vat_reliability (registry_env (ascii '' ne '')) (ascii ''CZ25083062'') w0) = Inr r
       \<and> status r = ascii ''success'' \<and> reliable_vat_payer r = ascii ''true''
       \<and> message r = ascii ''VAT Tax payer status: '' @ ascii ''Reliable'')
   \<and> (\<exists>r. fst (check_vat_reliability (registry_env (ascii ''NENALEZEN'')) (ascii ''CZ25083062'') w0) = Inr r
       \<and> status r = ascii ''success'' \<and> reliable_vat_payer r = ascii ''NA''
       \<and> message r = ascii ''VAT Tax payer status: '' @ ascii ''Not found'')"
proof -
  have digits: "re_sub_nondigits (ascii ''CZ25083062'') \<noteq> []"
    by (simp add: digits_CZ25083062 sample_nonempty)
  have call: "fst (call_service (registry_env v) (re_sub_nondigits (ascii ''CZ25083062'')) w0) =
                Inr (Some (soap_response [status_element (ascii ''25083062'') v]))" for v
    by (simp add: registry_env_def call_service_reply sample_decimal parser_outcome_def
          digits_CZ25083062)
  have found: "find_status (soap_response [status_element (ascii ''25083062'') v])
                 (re_sub_nondigits (ascii ''CZ25083062'')) =
               Some (status_element (ascii ''25083062'') v)" for v
    by (simp add: digits_CZ25083062 find_status_present)
  have nsp: "py_upper ascii_toupper (py_strip v) =
             py_upper (toupper_full (registry_env v))
               (py_strip (case attrib_get (status_element (ascii ''25083062'') v)
                                 (ascii ''nespolehlivyPlatce'') of None \<Rightarrow> [] | Some u \<Rightarrow> u))" for v
    by (simp add: registry_env_def env_reply_def status_element_def attrib_get_def
          attribute_names_distinct)
  have ne: "ascii ''NENALEZEN'' \<noteq> ascii ''ANO''" "ascii ''NENALEZEN'' \<noteq> ascii ''NE''"
    by (simp_all add: ascii_def)
  show ?thesis
    using present_element_interpreted [OF digits call found nsp, of "ascii ''Ano''"]
      present_element_interpreted [OF digits call found nsp, of "ascii '' ne ''"]
      present_element_interpreted [OF digits call found nsp, of "ascii ''NENALEZEN''"]
    by (simp add: normalize_samples ne literals_distinct)
qed

subsection \<open>C3: a failed service call\<close>

text \<open>
  The failures that make \<open>_call_service\<close> return \<open>None\<close>: an exception of the first
  \<open>try\<close> block (raised by \<open>requests.post\<close>, or by \<open>raise_for_status\<close> for a status from
  400 to 599), and a \<open>ParseError\<close> of the parser.
\<close>

lemma call_service_None:
  assumes "list_all isdecimal d"
    and "utf8_encode (build_soap_envelope d) = Some b"
    and "req = \<lparr>url = SERVICE_URL, data = b,
                headers = [(ascii ''Content-Type'', ascii ''text/xml; charset=utf-8''),
                           (ascii ''SOAPAction'', SOAP_ACTION)],
                timeout = 30\<rparr>"
  shows "fst (call_service env d w) = Inr None \<longleftrightarrow>
           (case post env req of
              Inl exc \<Rightarrow> True
            | Inr resp \<Rightarrow>
                400 \<le> status_code resp \<and> status_code resp < 600
                \<or> (\<exists>m. fromstring env (content resp) = Inl (XMLParseError m)))"
  using assms(2,3)
  by (auto simp: call_service_def post_request_def raise_for_status_def
        split: sum.splits exception.splits)

lemma call_service_posts:
  assumes "utf8_encode (build_soap_envelope d) = Some payload"
  shows "posted (snd (call_service env d w)) = posted w @ [service_request payload]"
  using assms
  by (simp add: call_service_def post_request_def service_request_def Let_def
        split: sum.splits exception.splits prod.splits)

lemma utf8_encode_ascii: "list_all (\<lambda>c. c < 128) s \<Longrightarrow> utf8_encode s = Some s"
  by (induction s) (simp_all add: utf8_encode_char_def)

lemma sample_envelope_encoded:
  "utf8_encode (build_soap_envelope (ascii ''25083062'')) =
     Some (build_soap_envelope (ascii ''25083062''))"
  by (rule utf8_encode_ascii)
     (simp add: build_soap_envelope_def NS_soap_def NS_crp_def ascii_def)

text \<open>
  C3, as stated, fails: a reply with a status outside 200 to 299 is not always a failure
  for the program. For a reply with the status 302 and a body that holds the status
  element of the number, the returned record has \<open>status = success\<close>, not \<open>error\<close>, and
  \<open>auto_checked\<close> is true.
\<close>

theorem redirect_status_accepted:
  "fst (check_vat_reliability
          (env_reply 302 (Inr (soap_response [status_element (ascii ''25083062'') (ascii '' ne '')])))
          (ascii ''CZ25083062'') w0) =
     Inr \<lparr>status = ascii ''success'', reliable_vat_payer = ascii ''true'',
          message = ascii ''VAT Tax payer status: '' @ ascii ''Reliable'',
          auto_checked = True, vat_number_clean = ascii ''25083062''\<rparr>
   \<and> ascii ''success'' \<noteq> ascii ''error''"
proof -
  let ?root = "soap_response [status_element (ascii ''25083062'') (ascii '' ne '')]"
  have "fst (call_service (env_reply 302 (Inr ?root)) (ascii ''25083062'') w0) = Inr (Some ?root)"
    by (simp add: call_service_reply sample_decimal parser_outcome_def)
  from check_found [of "ascii ''CZ25083062''", unfolded digits_CZ25083062,
      OF sample_nonempty fst_pair [OF this] find_status_present]
  show ?thesis
    by (simp add: normalized_attribute_status_element normalize_samples initial_result_def
          literals_distinct)
qed

text \<open>
  C3, amended: if the service call fails in one of these ways: \<open>requests.post\<close> raises
  (a transport error or a timeout), the reply has a status from 400 to 599, or the parser
  raises \<open>ParseError\<close> on the body of the reply, then \<open>check_vat_reliability\<close> returns a
  record (no exception escapes) with \<open>status = error\<close>, \<open>auto_checked\<close> false and
  \<open>reliable_vat_payer = true\<close>, the default; the request was posted once.
\<close>

theorem service_failure_reported:
  assumes "re_sub_nondigits vat_input \<noteq> []"
    and "utf8_encode (build_soap_envelope (re_sub_nondigits vat_input)) = Some payload"
    and "case post env (service_request payload) of
           Inl exc \<Rightarrow> True
         | Inr resp \<Rightarrow>
             400 \<le> status_code resp \<and> status_code resp < 600
             \<or> (\<exists>m. fromstring env (content resp) = Inl (XMLParseError m))"
  shows "\<exists>r w1. check_vat_reliability env vat_input w = (Inr r, w1)
       \<and> status r = ascii ''error'' \<and> \<not> auto_checked r
       \<and> reliable_vat_payer r = ascii ''true''
       \<and> reliable_vat_payer r = reliable_vat_payer initial_result
       \<and> posted w1 = posted w @ [service_request payload]"
proof -
  have "fst (call_service env (re_sub_nondigits vat_input) w) = Inr None"
    using assms(3)
    by (simp add: call_service_None [OF re_sub_nondigits_all_decimal assms(2) refl]
          service_request_def)
  from check_service_none [OF assms(1) fst_pair [OF this]] show ?thesis
    by (simp add: initial_result_def call_service_posts [OF assms(2)])
qed

text \<open>
  The three kinds of failure for the input \<open>CZ25083062\<close>: a connection that is refused,
  a reply with the status 503, and a reply whose body the parser rejects.
\<close>

theorem service_failure_reported_witness:
  "re_sub_nondigits (ascii ''CZ25083062'') \<noteq> []
   \<and> utf8_encode (build_soap_envelope (re_sub_nondigits (ascii ''CZ25083062''))) =
       Some (build_soap_envelope (ascii ''25083062''))
   \<and> post env_down (service_request (build_soap_envelope (ascii ''25083062''))) =
       Inl (RequestException (ascii ''connection refused''))
   \<and> (\<exists>r w1. check_vat_reliability env_down (ascii ''CZ25083062'') w0 = (Inr r, w1)
         \<and> status r = ascii ''error'' \<and> \<not> auto_checked r
         \<and> reliable_vat_payer r = ascii ''true'')
   \<and> post (env_reply 503 (Inr (soap_response [])))
         (service_request (build_soap_envelope (ascii ''25083062''))) =
       Inr \<lparr>status_code = 503, content = []\<rparr>
   \<and> (\<exists>r w1. check_vat_reliability (env_reply 503 (Inr (soap_response [])))
                 (ascii ''CZ25083062'') w0 = (Inr r, w1)
         \<and> status r = ascii ''error'' \<and> \<not> auto_checked r
         \<and> reliable_vat_payer r = ascii ''true'')
   \<and> post malformed_reply_env (service_request (build_soap_envelope (ascii ''25083062''))) =
       Inr \<lparr>status_code = 200, content = []\<rparr>
   \<and> fromstring malformed_reply_env [] = Inl (XMLParseError (ascii ''no element found''))
   \<and> (\<exists>r w1. check_vat_reliability malformed_reply_env (ascii ''CZ25083062'') w0 = (Inr r, w1)
         \<and> status r = ascii ''error'' \<and> \<not> auto_checked r
         \<and> reliable_vat_payer r = ascii ''true'')"
proof -
  let ?p = "build_soap_envelope (ascii ''25083062'')"
  have digits: "re_sub_nondigits (ascii ''CZ25083062'') \<noteq> []"
    by (simp add: digits_CZ25083062 sample_nonempty)
  have enc: "utf8_encode (build_soap_envelope (re_sub_nondigits (ascii ''CZ25083062''))) = Some ?p"
    by (simp add: digits_CZ25083062 sample_envelope_encoded)
  have down: "post env_down (service_request ?p) = Inl (RequestException (ascii ''connection refused''))"
    by (simp add: env_down_def)
  have busy: "post (env_reply 503 (Inr (soap_response []))) (service_request ?p) =
                Inr \<lparr>status_code = 503, content = []\<rparr>"
    by (simp add: env_reply_def)
  have reply: "post malformed_reply_env (service_request ?p) = Inr \<lparr>status_code = 200, content = []\<rparr>"
    and body: "fromstring malformed_reply_env [] = Inl (XMLParseError (ascii ''no element found''))"
    by (simp_all add: malformed_reply_env_def env_reply_def)
  have h1: "case post env_down (service_request ?p) of
           Inl exc \<Rightarrow> True
         | Inr resp \<Rightarrow>
             400 \<le> status_code resp \<and> status_code resp < 600
             \<or> (\<exists>m. fromstring env_down (content resp) = Inl (XMLParseError m))"
    by (simp add: down)
  have h2: "case post (env_reply 503 (Inr (soap_response []))) (service_request ?p) of
           Inl exc \<Rightarrow> True
         | Inr resp \<Rightarrow>
             400 \<le> status_code resp \<and> status_code resp < 600
             \<or> (\<exists>m. fromstring (env_reply 503 (Inr (soap_response []))) (content resp) =
                      Inl (XMLParseError m))"
    by (simp add: busy)
  have h3: "case post malformed_reply_env (service_request ?p) of
           Inl exc \<Rightarrow> True
         | Inr resp \<Rightarrow>
             400 \<le> status_code resp \<and> status_code resp < 600
             \<or> (\<exists>m. fromstring malformed_reply_env (content resp) = Inl (XMLParseError m))"
    by (simp add: reply body)
  show ?thesis
    using digits enc down busy reply body
      service_failure_reported [OF digits enc h1, of w0]
      service_failure_reported [OF digits enc h2, of w0]
      service_failure_reported [OF digits enc h3, of w0]
    by blast
qed

subsection \<open>C4: no matching element\<close>

text \<open>
  C4: if the parsed response document contains no \<open>statusPlatceDPH\<close> element whose \<open>dic\<close>
  attribute equals the digit string that was sent, the returned record has
  \<open>status = not_found\<close> and \<open>reliable_vat_payer = NA\<close>.
\<close>

theorem absent_element_not_found:
  assumes "re_sub_nondigits vat_input \<noteq> []"
    and "fst (call_service env (re_sub_nondigits vat_input) w) = Inr (Some root)"
    and "\<forall>e\<in>set (iter root).
           \<not> (tag e = ascii ''{'' @ NS_crp @ ascii ''}statusPlatceDPH''
              \<and> map_of (attrib e) (ascii ''dic'') = Some (re_sub_nondigits vat_input))"
  shows "\<exists>r. check_vat_reliability env vat_input w =
               (Inr r, snd (call_service env (re_sub_nondigits vat_input) w))
       \<and> status r = ascii ''not_found'' \<and> reliable_vat_payer r = ascii ''NA''"
proof -
  have "find_status root (re_sub_nondigits vat_input) = None"
    using assms(3) by (intro find_status_None) (simp add: matches_status_def status_tag_def attrib_get_def)
  from check_not_found [OF assms(1) fst_pair [OF assms(2)] this]
  show ?thesis by simp
qed

text \<open>A registry whose reply holds the status of another number only.\<close>

theorem absent_element_not_found_witness:
  "re_sub_nondigits (ascii ''CZ 2508306'') \<noteq> []
   \<and> fst (call_service (registry_env (ascii ''NE'')) (re_sub_nondigits (ascii ''CZ 2508306'')) w0) =
       Inr (Some (soap_response [status_element (ascii ''25083062'') (ascii ''NE'')]))
   \<and> (\<exists>r. fst (check_vat_reliability (registry_env (ascii ''NE'')) (ascii ''CZ 2508306'') w0) = Inr r
       \<and> status r = ascii ''not_found'' \<and> reliable_vat_payer r = ascii ''NA'')"
proof -
  let ?x = "ascii ''CZ 2508306''"
  let ?root = "soap_response [status_element (ascii ''25083062'') (ascii ''NE'')]"
  have d: "re_sub_nondigits ?x = ascii ''2508306''"
    by (simp add: re_sub_nondigits_def isdecimal_def in_ranges_def decimal_ranges_def ascii_def)
  have digits: "re_sub_nondigits ?x \<noteq> []"
    unfolding d by (simp add: ascii_def)
  have call: "fst (call_service (registry_env (ascii ''NE'')) (re_sub_nondigits ?x) w0) = Inr (Some ?root)"
    by (simp add: registry_env_def call_service_reply re_sub_nondigits_all_decimal parser_outcome_def)
  have absent: "\<forall>e\<in>set (iter ?root).
           \<not> (tag e = ascii ''{'' @ NS_crp @ ascii ''}statusPlatceDPH''
              \<and> map_of (attrib e) (ascii ''dic'') = Some (re_sub_nondigits ?x))"
    by (simp add: d soap_response_def status_element_def) (simp add: ascii_def)
  show ?thesis
    using digits call absent_element_not_found [OF digits call absent]
    by auto
qed

subsection \<open>C5: an input without digits\<close>

text \<open>
  C5: for every input that contains no decimal-digit character (no character that the
  class \<open>\d\<close> matches), \<open>check_vat_reliability\<close> returns a record with \<open>status = error\<close> and
  \<open>auto_checked\<close> false, and the service is not called: nothing is posted and nothing is
  printed, the world is left as it was.
\<close>

theorem no_digits_rejected:
  assumes "\<forall>c\<in>set vat_input. \<not> isdecimal c"
  shows "\<exists>r. check_vat_reliability env vat_input w = (Inr r, w)
       \<and> status r = ascii ''error'' \<and> \<not> auto_checked r"
proof -
  have "re_sub_nondigits vat_input = []"
    using assms by (simp add: re_sub_nondigits_empty_iff)
  then show ?thesis
    by (simp add: check_no_digits initial_result_def)
qed

text \<open>The input \<open>CZ-n/a\<close>, with a registry that would answer.\<close>

theorem no_digits_rejected_witness:
  "list_all (\<lambda>c. \<not> isdecimal c) (ascii ''CZ-n/a'')
   \<and> (\<exists>r. check_vat_reliability (registry_env (ascii ''NE'')) (ascii ''CZ-n/a'') w0 = (Inr r, w0)
       \<and> status r = ascii ''error'' \<and> \<not> auto_checked r)"
proof -
  have h: "\<forall>c\<in>set (ascii ''CZ-n/a''). \<not> isdecimal c"
    by (simp add: isdecimal_def in_ranges_def decimal_ranges_def ascii_def)
  show ?thesis
    using h no_digits_rejected [OF h] by (simp add: list_all_iff)
qed

subsection \<open>C6: the cleaned number\<close>

text \<open>
  C6, as stated with the digits 0 to 9 of the specification, fails: for the input that
  consists of the Arabic-Indic digit three (U+0663) the program keeps the character in
  \<open>vat_number_clean\<close> (and goes on to call the service), while removing every character
  that is not one of 0 to 9 leaves nothing.
\<close>

theorem unicode_digit_kept:
  "fst (check_vat_reliability env_down [1635] w0) =
     Inr \<lparr>status = ascii ''error'', reliable_vat_payer = ascii ''true'',
          message = ascii ''Error: could not get response from VAT service'',
          auto_checked = False, vat_number_clean = [1635]\<rparr>
   \<and> spec_input_normalizer [1635] = []"
proof -
  have d: "re_sub_nondigits [1635] = [1635]"
    by (simp add: re_sub_nondigits_def isdecimal_def in_ranges_def decimal_ranges_def)
  have "fst (call_service env_down (re_sub_nondigits [1635]) w0) = Inr None"
    by (rule call_service_post_raises) (simp add: env_down_def)
  from check_service_none [OF _ fst_pair [OF this]] show ?thesis
    by (simp add: d initial_result_def spec_input_normalizer_def)
qed

text \<open>
  C6, amended: for every input, the \<open>vat_number_clean\<close> field of the returned record is
  the input with every character removed that is not a Unicode decimal digit (the class
  \<open>\d\<close>: the digits 0 to 9 and the decimal digits of the other scripts), the remaining
  characters in their original order; for an input of ASCII characters this is the input
  with every character other than 0 to 9 removed.
\<close>

theorem vat_number_clean_digits:
  assumes "fst (check_vat_reliability env vat_input w) = Inr r"
  shows "vat_number_clean r = filter isdecimal vat_input
       \<and> ((\<forall>c\<in>set vat_input. c < 128) \<longrightarrow> vat_number_clean r = spec_input_normalizer vat_input)"
proof -
  have clean: "vat_number_clean r = re_sub_nondigits vat_input"
  proof (cases "re_sub_nondigits vat_input = []")
    case True
    with assms show ?thesis by (auto simp: check_no_digits)
  next
    case False
    show ?thesis
    proof (cases rule: call_service_cases [of env "re_sub_nondigits vat_input" w])
      case (none w1)
      with assms False show ?thesis by (auto simp: check_service_none)
    next
      case (raises exc w1)
      with assms False show ?thesis by (simp add: check_service_raises)
    next
      case (root root w1)
      with assms False show ?thesis
        by (cases "find_status root (re_sub_nondigits vat_input)")
           (auto simp: check_not_found check_found)
    qed
  qed
  have "filter isdecimal vat_input = spec_input_normalizer vat_input"
    if "\<forall>c\<in>set vat_input. c < 128"
    unfolding spec_input_normalizer_def using that
    by (intro filter_cong) (auto simp: isdecimal_ascii)
  with clean show ?thesis
    by (simp add: re_sub_nondigits_def)
qed

text \<open>The input \<open>CZ25083062\<close>, all ASCII, with a registry that answers \<open>NE\<close>.\<close>

theorem vat_number_clean_digits_witness:
  "fst (check_vat_reliability (registry_env (ascii ''NE'')) (ascii ''CZ25083062'') w0) =
     Inr (initial_result\<lparr>vat_number_clean := ascii ''25083062'',
           status := ascii ''success'', reliable_vat_payer := ascii ''true'',
           message := ascii ''VAT Tax payer status: '' @ ascii ''Reliable''\<rparr>)
   \<and> list_all (\<lambda>c. c < 128) (ascii ''CZ25083062'')
   \<and> filter isdecimal (ascii ''CZ25083062'') = ascii ''25083062''
   \<and> spec_input_normalizer (ascii ''CZ25083062'') = ascii ''25083062''"
proof -
  have py: "py_upper ascii_toupper (py_strip (ascii ''NE'')) = ascii ''NE''"
    by (simp add: py_upper_def py_strip_def ascii_toupper_def isspace_def in_ranges_def
        whitespace_ranges_def ascii_def)
  have h: "fst (check_vat_reliability (registry_env (ascii ''NE'')) (ascii ''CZ25083062'') w0) =
     Inr (initial_result\<lparr>vat_number_clean := ascii ''25083062'',
           status := ascii ''success'', reliable_vat_payer := ascii ''true'',
           message := ascii ''VAT Tax payer status: '' @ ascii ''Reliable''\<rparr>)"
    by (simp add: run_registry py literals_distinct)
  have a: "\<forall>c\<in>set (ascii ''CZ25083062''). c < 128"
    by (simp add: ascii_def)
  show ?thesis
    using h a vat_number_clean_digits [OF h] by (auto simp: list_all_iff)
qed

subsection \<open>C7: insensitivity to the format of the input\<close>

text \<open>
  C7: \<open>check_vat_reliability\<close> is insensitive to the formatting of its input: two inputs
  with the same digit extraction give, with the same service behaviour and from the same
  world, the same result; and the result for an input is the result for its digits.
\<close>

theorem format_insensitive:
  "(re_sub_nondigits x = re_sub_nondigits y \<longrightarrow>
      check_vat_reliability env x w = check_vat_reliability env y w)
   \<and> check_vat_reliability env (re_sub_nondigits x) w = check_vat_reliability env x w"
  by (auto intro: check_depends_on_digits simp: re_sub_nondigits_idem)

text \<open>The two spellings of the specification, \<open>CZ25083062\<close> and \<open>250 830 62\<close>.\<close>

theorem format_insensitive_witness:
  "re_sub_nondigits (ascii ''CZ25083062'') = re_sub_nondigits (ascii ''250 830 62'')
   \<and> check_vat_reliability (registry_env (ascii ''NE'')) (ascii ''CZ25083062'') w0 =
     check_vat_reliability (registry_env (ascii ''NE'')) (ascii ''250 830 62'') w0
   \<and> check_vat_reliability (registry_env (ascii ''NE'')) (ascii ''25083062'') w0 =
     check_vat_reliability (registry_env (ascii ''NE'')) (ascii ''CZ25083062'') w0"
  using format_insensitive [of "ascii ''CZ25083062''" "ascii ''250 830 62''"
      "registry_env (ascii ''NE'')" w0]
  by (simp add: digits_CZ25083062 digits_spaced)

subsection \<open>C8: no exception leaves the check\<close>

text \<open>
  C8 fails on the code: when the body of the reply declares an encoding that the parser
  does not know, \<open>ET.fromstring\<close> raises \<open>LookupError\<close>, which is not a \<open>ParseError\<close>;
  \<open>_call_service\<close> does not catch it and \<open>check_vat_reliability\<close> returns no record.
\<close>

theorem unknown_encoding_escapes:
  "fst (check_vat_reliability unknown_encoding_env (ascii ''CZ25083062'') w0) =
     Inl (LookupError (ascii ''unknown encoding: bogus''))"
proof -
  have "fst (call_service unknown_encoding_env (re_sub_nondigits (ascii ''CZ25083062'')) w0) =
          Inl (LookupError (ascii ''unknown encoding: bogus''))"
    by (simp add: unknown_encoding_env_def call_service_reply re_sub_nondigits_all_decimal
          parser_outcome_def)
  from check_service_raises [OF _ fst_pair [OF this]] show ?thesis
    by (simp add: digits_CZ25083062 sample_nonempty)
qed

lemma decimal_ranges_char_data:
  "list_all (\<lambda>(lo, hi). \<forall>x. lo \<le> x \<and> x \<le> hi \<longrightarrow>
       (32 \<le> x \<and> x \<le> 55295 \<or> 57344 \<le> x \<and> x \<le> 65533 \<or> 65536 \<le> x \<and> x \<le> 1114111)
       \<and> x \<noteq> 60 \<and> x \<noteq> 38 \<and> x \<noteq> 62)
     decimal_ranges"
  by (simp add: decimal_ranges_def)

lemma isdecimal_char_data:
  assumes "list_all isdecimal d"
  shows "char_data d"
proof -
  have "xml_char c \<and> c \<noteq> 60 \<and> c \<noteq> 38 \<and> c \<noteq> 62" if "isdecimal c" for c
    using in_ranges_property [OF that [unfolded isdecimal_def] decimal_ranges_char_data]
    by (simp add: xml_char_def)
  with assms show ?thesis
    by (simp add: char_data_def list_all_iff)
qed

lemma xml_names:
  "xml_name (ascii ''soapenv:Envelope'')" "xml_name (ascii ''soapenv:Body'')"
  "xml_name (ascii ''StatusNespolehlivyPlatceRequest'')" "xml_name (ascii ''dic'')"
  "xml_name (ascii ''xmlns:soapenv'')" "xml_name (ascii ''xmlns'')"
  by (simp_all add: xml_name_def name_char_def name_start_char_def ascii_def)

lemma namespace_att_values: "att_value NS_soap" "att_value NS_crp"
  by (simp_all add: att_value_def xml_char_def NS_soap_def NS_crp_def ascii_def)

lemma indentation_char_data:
  "char_data (ascii ''\<newline>'')" "char_data (ascii ''\<newline>  '')"
  "char_data (ascii ''\<newline>    '')" "char_data (ascii ''\<newline>      '')"
  by (simp_all add: char_data_def xml_char_def ascii_def)

subsection \<open>C9: the request document\<close>

text \<open>
  C9: for every string \<open>d\<close> of digits, \<open>_build_soap_envelope(d)\<close> is a well-formed XML
  document that declares the encoding UTF-8 (and can be encoded in it): a
  \<open>soapenv:Envelope\<close> holding a \<open>soapenv:Body\<close> holding a single request element whose sole
  child element, \<open>dic\<close>, carries \<open>d\<close> itself as its character data; the prefix \<open>soapenv\<close>
  is bound to the SOAP namespace and the request element and its child are in the
  namespace of the registry, the two fixed constants.
\<close>

theorem soap_envelope_wellformed:
  assumes "list_all isdecimal d"
    and "doc =
      Tag (ascii ''soapenv:Envelope'') [(ascii ''xmlns:soapenv'', NS_soap)]
        [CharData (ascii ''\<newline>  ''),
         Tag (ascii ''soapenv:Body'') []
           [CharData (ascii ''\<newline>    ''),
            Tag (ascii ''StatusNespolehlivyPlatceRequest'') [(ascii ''xmlns'', NS_crp)]
              [CharData (ascii ''\<newline>      ''),
               Tag (ascii ''dic'') [] [CharData d],
               CharData (ascii ''\<newline>    '')],
            CharData (ascii ''\<newline>  '')],
         CharData (ascii ''\<newline>'')]"
  shows "build_soap_envelope d = render_document (ascii ''1.0'') (ascii ''UTF-8'') doc
       \<and> wellformed doc
       \<and> to_element [] doc =
           Some (Element (ascii ''{'' @ NS_soap @ ascii ''}Envelope'') []
                  [Element (ascii ''{'' @ NS_soap @ ascii ''}Body'') []
                     [Element (ascii ''{'' @ NS_crp @ ascii ''}StatusNespolehlivyPlatceRequest'') []
                        [Element (ascii ''{'' @ NS_crp @ ascii ''}dic'') [] []]]])
       \<and> utf8_encode (build_soap_envelope d) \<noteq> None"
proof -
  have rendering: "build_soap_envelope d = render_document (ascii ''1.0'') (ascii ''UTF-8'') doc"
    unfolding assms(2)
    by (simp add: build_soap_envelope_def render_document_def render_attribute_def
          NS_soap_def NS_crp_def ascii_def)
  have wf: "wellformed doc"
    unfolding assms(2)
    by (simp add: xml_names namespace_att_values indentation_char_data
          isdecimal_char_data [OF assms(1)])
  have prefix: "58 \<in> set (ascii ''soapenv:Envelope'')" "58 \<in> set (ascii ''soapenv:Body'')"
    "58 \<notin> set (ascii ''StatusNespolehlivyPlatceRequest'')" "58 \<notin> set (ascii ''dic'')"
    by (simp_all add: ascii_def)
  have names: "takeWhile (\<lambda>c. c \<noteq> 58) (ascii ''soapenv:Envelope'') = ascii ''soapenv''"
    "takeWhile (\<lambda>c. c \<noteq> 58) (ascii ''soapenv:Body'') = ascii ''soapenv''"
    "tl (dropWhile (\<lambda>c. c \<noteq> 58) (ascii ''soapenv:Envelope'')) = ascii ''Envelope''"
    "tl (dropWhile (\<lambda>c. c \<noteq> 58) (ascii ''soapenv:Body'')) = ascii ''Body''"
    "take 6 (ascii ''xmlns:soapenv'') = ascii ''xmlns:''"
    "drop 6 (ascii ''xmlns:soapenv'') = ascii ''soapenv''"
    "ascii ''xmlns:soapenv'' \<noteq> ascii ''xmlns''" "ascii ''soapenv'' \<noteq> []"
    by (simp_all add: ascii_def)
  have tree: "to_element [] doc =
           Some (Element (ascii ''{'' @ NS_soap @ ascii ''}Envelope'') []
                  [Element (ascii ''{'' @ NS_soap @ ascii ''}Body'') []
                     [Element (ascii ''{'' @ NS_crp @ ascii ''}StatusNespolehlivyPlatceRequest'') []
                        [Element (ascii ''{'' @ NS_crp @ ascii ''}dic'') [] []]]])"
    unfolding assms(2)
    by (simp add: namespace_declarations_def plain_attributes_def expand_name_def prefix names)
       (simp add: ascii_def)
  from rendering wf tree envelope_encodable [OF assms(1)] show ?thesis by simp
qed

text \<open>The number of the specification's scenario.\<close>

theorem soap_envelope_wellformed_witness:
  "list_all isdecimal (ascii ''25083062'')
   \<and> build_soap_envelope (ascii ''25083062'') =
       render_document (ascii ''1.0'') (ascii ''UTF-8'')
         (Tag (ascii ''soapenv:Envelope'') [(ascii ''xmlns:soapenv'', NS_soap)]
            [CharData (ascii ''\<newline>  ''),
             Tag (ascii ''soapenv:Body'') []
               [CharData (ascii ''\<newline>    ''),
                Tag (ascii ''StatusNespolehlivyPlatceRequest'') [(ascii ''xmlns'', NS_crp)]
                  [CharData (ascii ''\<newline>      ''),
                   Tag (ascii ''dic'') [] [CharData (ascii ''25083062'')],
                   CharData (ascii ''\<newline>    '')],
                CharData (ascii ''\<newline>  '')],
             CharData (ascii ''\<newline>'')])
   \<and> utf8_encode (build_soap_envelope (ascii ''25083062'')) \<noteq> None"
  using sample_decimal soap_envelope_wellformed [OF sample_decimal refl]
  by blast

subsection \<open>C10: the default on the invalid-input path\<close>

text \<open>
  C10: on the invalid-input path, when no digit is extracted from the input, the returned
  record has \<open>reliable_vat_payer = true\<close>: the value the record was initialized with is
  left in place.
\<close>

theorem invalid_input_keeps_default:
  assumes "re_sub_nondigits vat_input = []"
  shows "\<exists>r. fst (check_vat_reliability env vat_input w) = Inr r
       \<and> reliable_vat_payer r = ascii ''true''
       \<and> reliable_vat_payer r = reliable_vat_payer initial_result"
  using assms by (simp add: check_no_digits initial_result_def)

text \<open>The input \<open>CZ\<close>, with a registry that would answer.\<close>

theorem invalid_input_keeps_default_witness:
  "re_sub_nondigits (ascii ''CZ'') = []
   \<and> (\<exists>r. fst (check_vat_reliability empty_registry_env (ascii ''CZ'') w0) = Inr r
       \<and> reliable_vat_payer r = ascii ''true'')"
  using digits_CZ invalid_input_keeps_default [OF digits_CZ, of empty_registry_env w0]
  by blast

end
